theory Spec2Isabelle
  imports Complex_Main "HOL-Library.Sublist"
begin

section \<open>JavaScript strings and arrays\<close>

text \<open>
  The server is written in JavaScript for Node.js. Strings are modelled as
  \<^typ>\<open>string\<close>; the array and string methods the handlers call are given here with
  the meaning they have in the language.
\<close>

definition nl :: char where
  "nl = CHR 0x0A"

text \<open>\<^verbatim>\<open>s.split(sep)\<close> for a one-character separator: never the empty array.\<close>

fun split_on :: "char \<Rightarrow> string \<Rightarrow> string list" where
  "split_on sep [] = [[]]"
| "split_on sep (c # cs) =
     (if c = sep then [] # split_on sep cs
      else (case split_on sep cs of [] \<Rightarrow> [[c]] | l # ls \<Rightarrow> (c # l) # ls))"

text \<open>\<^verbatim>\<open>a.join(sep)\<close> for a one-character separator.\<close>

fun join_on :: "char \<Rightarrow> string list \<Rightarrow> string" where
  "join_on sep [] = []"
| "join_on sep [l] = l"
| "join_on sep (l # m # ls) = l @ sep # join_on sep (m # ls)"

text \<open>\<^verbatim>\<open>a.slice(-n)\<close>: the last \<open>n\<close> elements, or all of them when there are fewer.\<close>

definition slice_last :: "nat \<Rightarrow> 'a list \<Rightarrow> 'a list" where
  "slice_last n xs = drop (length xs - n) xs"

text \<open>\<^verbatim>\<open>s.includes(sub)\<close>.\<close>

fun str_includes :: "string \<Rightarrow> string \<Rightarrow> bool" where
  "str_includes [] sub = (sub = [])"
| "str_includes (c # cs) sub = (prefix sub (c # cs) \<or> str_includes cs sub)"

text \<open>\<^verbatim>\<open>s.trim()\<close>, on the white space of ASCII.\<close>

definition is_space :: "char \<Rightarrow> bool" where
  "is_space c = (c \<in> set [CHR 0x20, CHR 0x09, CHR 0x0A, CHR 0x0B, CHR 0x0C, CHR 0x0D])"

definition trim :: "string \<Rightarrow> string" where
  "trim s = rev (dropWhile is_space (rev (dropWhile is_space s)))"

text \<open>A number in a template literal: decimal digits, a minus sign when negative.\<close>

definition digit :: "nat \<Rightarrow> char" where
  "digit d = ''0123456789'' ! d"

fun decimal :: "nat \<Rightarrow> string" where
  "decimal n = (if n < 10 then [digit n] else decimal (n div 10) @ [digit (n mod 10)])"

declare decimal.simps [simp del]

definition number_string :: "int \<Rightarrow> string" where
  "number_string i = (if i < 0 then CHR ''-'' # decimal (nat (- i)) else decimal (nat i))"

text \<open>
  The exit code passed to a \<^verbatim>\<open>close\<close> listener is a number, or \<^verbatim>\<open>null\<close> when the
  child was ended by a signal; a template literal prints \<^verbatim>\<open>null\<close> as such.
\<close>

definition code_string :: "int option \<Rightarrow> string" where
  "code_string code = (case code of None \<Rightarrow> ''null'' | Some n \<Rightarrow> number_string n)"

section \<open>Node's path module (POSIX)\<close>

text \<open>
  \<^verbatim>\<open>path.basename\<close>: trailing separators are dropped, then what follows the last
  separator is returned.
\<close>

definition basename :: "string \<Rightarrow> string" where
  "basename p =
     rev (takeWhile (\<lambda>c. c \<noteq> CHR ''/'')
            (dropWhile (\<lambda>c. c = CHR ''/'') (rev p)))"

text \<open>
  \<^verbatim>\<open>path.normalize\<close> works segment by segment: empty segments and \<^verbatim>\<open>.\<close> are dropped,
  \<^verbatim>\<open>..\<close> removes the segment before it when there is one that is not itself \<^verbatim>\<open>..\<close>,
  and is kept only in a relative path. The list \<open>res\<close> holds the segments kept so
  far, the most recent first.
\<close>

fun normalize_segments :: "bool \<Rightarrow> string list \<Rightarrow> string list \<Rightarrow> string list" where
  "normalize_segments allowAboveRoot [] res = res"
| "normalize_segments allowAboveRoot (seg # segs) res =
     (if seg = [] \<or> seg = ''.'' then normalize_segments allowAboveRoot segs res
      else if seg = ''..'' then
        (case res of
           seg0 # below \<Rightarrow>
             (if seg0 = ''..'' then normalize_segments allowAboveRoot segs (seg # res)
              else normalize_segments allowAboveRoot segs below)
         | [] \<Rightarrow>
             (if allowAboveRoot then normalize_segments allowAboveRoot segs [seg]
              else normalize_segments allowAboveRoot segs []))
      else normalize_segments allowAboveRoot segs (seg # res))"

definition path_normalize :: "string \<Rightarrow> string" where
  "path_normalize p =
     (case p of
        [] \<Rightarrow> ''.''
      | c # cs \<Rightarrow>
          (let isAbsolute = (c = CHR ''/'');
               trailingSeparator = (last p = CHR ''/'');
               q = join_on (CHR ''/'')
                     (rev (normalize_segments (\<not> isAbsolute) (split_on (CHR ''/'') p) []))
           in if q = [] then (if isAbsolute then ''/'' else if trailingSeparator then ''./'' else ''.'')
              else (if isAbsolute then ''/'' else [])
                   @ q @ (if trailingSeparator then ''/'' else [])))"

text \<open>\<^verbatim>\<open>path.join\<close>: the non-empty arguments joined by a separator, then normalised.\<close>

definition path_join :: "string list \<Rightarrow> string" where
  "path_join args =
     (case filter (\<lambda>a. a \<noteq> []) args of
        [] \<Rightarrow> ''.''
      | parts \<Rightarrow> path_normalize (join_on (CHR ''/'') parts))"

section \<open>The state of the server and of its surroundings\<close>

text \<open>
  A JSON value of a response body, and a response: either a JSON body with its status
  (\<^verbatim>\<open>res.json\<close> alone answers 200, \<^verbatim>\<open>res.status(n).json\<close> answers \<open>n\<close>), or a file
  sent as a download, with the bytes read from the disk.
\<close>

datatype json = JBool bool | JStr string | JNum real | JArr "json list"

datatype response = Json nat "(string \<times> json) list" | Download string string

text \<open>One call of \<^verbatim>\<open>console.log\<close> or \<^verbatim>\<open>console.error\<close>, with its arguments.\<close>

datatype console_call = Console_log "string list" | Console_error "string list"

text \<open>
  What the handlers act on: the files on the disk with their contents, the paths that
  \<^verbatim>\<open>fs.unlink\<close> has removed (in order), the child processes started by
  \<^verbatim>\<open>spawn\<close>, the console, the pending timers with the time they are due and the
  file they will delete, the clock in milliseconds (\<^verbatim>\<open>Date.now()\<close>), and the
  errors no listener caught.
\<close>

record server =
  disk :: "string \<rightharpoonup> string"
  removed :: "string list"
  spawned :: "(string \<times> string list) list"
  console :: "console_call list"
  timers :: "(nat \<times> string) list"
  clock :: nat
  uncaught :: "string list"

definition console_log :: "string list \<Rightarrow> server \<Rightarrow> server" where
  "console_log args s = s\<lparr>console := console s @ [Console_log args]\<rparr>"

definition console_error :: "string list \<Rightarrow> server \<Rightarrow> server" where
  "console_error args s = s\<lparr>console := console s @ [Console_error args]\<rparr>"

definition spawn :: "string \<Rightarrow> string list \<Rightarrow> server \<Rightarrow> server" where
  "spawn command args s = s\<lparr>spawned := spawned s @ [(command, args)]\<rparr>"

text \<open>
  \<^verbatim>\<open>fs.unlink(path, callback)\<close>: an existing file is removed and the callback gets no
  error; a missing file leaves the disk as it is and the callback gets the error.
\<close>

definition enoent :: "string \<Rightarrow> string" where
  "enoent p = ''ENOENT: no such file or directory, unlink '' @ [CHR 0x27] @ p @ [CHR 0x27]"

definition fs_unlink :: "string \<Rightarrow> (string option \<Rightarrow> server \<Rightarrow> server) \<Rightarrow> server \<Rightarrow> server" where
  "fs_unlink p callback s =
     (case disk s p of
        None \<Rightarrow> callback (Some (enoent p)) s
      | Some bytes \<Rightarrow> callback None (s\<lparr>disk := (disk s)(p := None), removed := removed s @ [p]\<rparr>))"

definition fs_existsSync :: "string \<Rightarrow> server \<Rightarrow> bool" where
  "fs_existsSync p s = (disk s p \<noteq> None)"

text \<open>
  What a child process reports to its listeners: a chunk on its standard output or on
  its diagnostic stream, its end with the exit code, or the failure to start it.
\<close>

datatype child_event = Stdout string | Stderr string | Close "int option" | Error string

text \<open>The file multer stored for the field \<^verbatim>\<open>video\<close> (\<^verbatim>\<open>req.file\<close>).\<close>

record multer_file =
  file_path :: string
  originalname :: string
  mimetype :: string
  file_size :: nat

section \<open>POST /convert\<close>

text \<open>The variables the listeners of one conversion share.\<close>

record conversion =
  inputPath :: string
  outputPath :: string
  progress :: string

text \<open>
  The handler up to the registration of the listeners: without a file it answers 400
  and returns; with one it starts the transcoder.
\<close>

definition convert :: "multer_file option \<Rightarrow> server \<Rightarrow> (response + conversion) \<times> server" where
  "convert file s =
     (case file of
        None \<Rightarrow> (Inl (Json 400 [(''error'', JStr ''No file uploaded'')]), s)
      | Some f \<Rightarrow>
          (let inp = file_path f;
               out = ''uploads/converted_'' @ decimal (clock s) @ ''.mp4'';
               s1 = console_log [''Converting: '' @ inp @ '' -> '' @ out] s;
               s2 = spawn ''ffmpeg''
                      [''-i'', inp,
                       ''-c:v'', ''libx264'',
                       ''-c:a'', ''aac'',
                       ''-preset'', ''fast'',
                       ''-crf'', ''23'',
                       ''-y'',
                       out] s1
           in (Inr \<lparr>inputPath = inp, outputPath = out, progress = []\<rparr>, s2)))"

text \<open>The listener of the diagnostic stream, in the main server file.\<close>

definition convert_on_stderr :: "string \<Rightarrow> conversion \<Rightarrow> server \<Rightarrow> conversion \<times> server" where
  "convert_on_stderr dataStr c s =
     (let c1 = c\<lparr>progress := progress c @ dataStr\<rparr>
      in if str_includes dataStr ''time='' \<or> str_includes dataStr ''error''
         then (c1, console_log [''FFmpeg progress:'', trim dataStr] s)
         else (c1, s))"

text \<open>The same listener in \<^verbatim>\<open>packages/index.js\<close>: every chunk is logged.\<close>

definition pkg_convert_on_stderr :: "string \<Rightarrow> conversion \<Rightarrow> server \<Rightarrow> conversion \<times> server" where
  "pkg_convert_on_stderr dataStr c s =
     (c\<lparr>progress := progress c @ dataStr\<rparr>, console_log [''FFmpeg:'', dataStr] s)"

text \<open>The callback of the \<^verbatim>\<open>unlink\<close> in the \<^verbatim>\<open>close\<close> listener.\<close>

definition log_input_unlink :: "string option \<Rightarrow> server \<Rightarrow> server" where
  "log_input_unlink err s =
     (case err of None \<Rightarrow> s | Some e \<Rightarrow> console_error [''Error deleting input file:'', e] s)"

text \<open>The response after exit code 0, the same in both files.\<close>

definition converted :: "conversion \<Rightarrow> response" where
  "converted c =
     Json 200
       [(''success'', JBool True),
        (''message'', JStr ''Video converted successfully''),
        (''outputFile'', JStr (basename (outputPath c))),
        (''downloadUrl'', JStr (''/download/'' @ basename (outputPath c)))]"

text \<open>The \<^verbatim>\<open>close\<close> listener of the main server file.\<close>

definition convert_on_close :: "int option \<Rightarrow> conversion \<Rightarrow> server \<Rightarrow> response \<times> server" where
  "convert_on_close code c s =
     (let s1 = fs_unlink (inputPath c) log_input_unlink s
      in if code = Some 0 then (converted c, s1)
         else (Json 500
                 [(''success'', JBool False),
                  (''error'', JStr (''Conversion failed with exit code '' @ code_string code)),
                  (''details'', JStr (join_on nl (slice_last 5 (split_on nl (progress c)))))],
               s1))"

text \<open>The \<^verbatim>\<open>close\<close> listener of \<^verbatim>\<open>packages/index.js\<close>.\<close>

definition pkg_convert_on_close :: "int option \<Rightarrow> conversion \<Rightarrow> server \<Rightarrow> response \<times> server" where
  "pkg_convert_on_close code c s =
     (let s1 = fs_unlink (inputPath c) log_input_unlink s
      in if code = Some 0 then (converted c, s1)
         else (Json 500
                 [(''success'', JBool False),
                  (''error'', JStr (''Conversion failed with exit code '' @ code_string code)),
                  (''details'', JStr (progress c))],
               s1))"

text \<open>The \<^verbatim>\<open>error\<close> listener, the same in both files.\<close>

definition convert_on_error :: "string \<Rightarrow> conversion \<Rightarrow> server \<Rightarrow> response \<times> server" where
  "convert_on_error message c s =
     (let s1 = fs_unlink (inputPath c) (\<lambda>err t. t) s
      in (Json 500
            [(''success'', JBool False),
             (''error'', JStr ''FFmpeg process error''),
             (''details'', JStr message)],
          s1))"

text \<open>
  One event of the child, given to the listeners that are registered for it. Nothing
  listens to the standard output of the transcoder. The result lists the responses
  the listeners sent.
\<close>

fun convert_event :: "child_event \<Rightarrow> conversion \<Rightarrow> server \<Rightarrow> response list \<times> conversion \<times> server" where
  "convert_event (Stdout dataStr) c s = ([], c, s)"
| "convert_event (Stderr dataStr) c s = (case convert_on_stderr dataStr c s of (c1, s1) \<Rightarrow> ([], c1, s1))"
| "convert_event (Close code) c s = (case convert_on_close code c s of (r, s1) \<Rightarrow> ([r], c, s1))"
| "convert_event (Error message) c s = (case convert_on_error message c s of (r, s1) \<Rightarrow> ([r], c, s1))"

fun pkg_convert_event :: "child_event \<Rightarrow> conversion \<Rightarrow> server \<Rightarrow> response list \<times> conversion \<times> server" where
  "pkg_convert_event (Stdout dataStr) c s = ([], c, s)"
| "pkg_convert_event (Stderr dataStr) c s = (case pkg_convert_on_stderr dataStr c s of (c1, s1) \<Rightarrow> ([], c1, s1))"
| "pkg_convert_event (Close code) c s = (case pkg_convert_on_close code c s of (r, s1) \<Rightarrow> ([r], c, s1))"
| "pkg_convert_event (Error message) c s = (case convert_on_error message c s of (r, s1) \<Rightarrow> ([r], c, s1))"

text \<open>The events of one child, in the order they arrive.\<close>

fun run_events ::
  "(child_event \<Rightarrow> 'c \<Rightarrow> server \<Rightarrow> response list \<times> 'c \<times> server) \<Rightarrow>
     child_event list \<Rightarrow> 'c \<Rightarrow> server \<Rightarrow> response list \<times> 'c \<times> server" where
  "run_events listeners [] c s = ([], c, s)"
| "run_events listeners (e # es) c s =
     (case listeners e c s of
        (rs, c1, s1) \<Rightarrow>
          (case run_events listeners es c1 s1 of (rs', c2, s2) \<Rightarrow> (rs @ rs', c2, s2)))"

text \<open>An event that ends the wait for the child.\<close>

fun terminal :: "child_event \<Rightarrow> bool" where
  "terminal (Close code) = True"
| "terminal (Error message) = True"
| "terminal (Stdout dataStr) = False"
| "terminal (Stderr dataStr) = False"

section \<open>GET /download/:filename\<close>

text \<open>
  The handler up to the call of \<^verbatim>\<open>res.download\<close>. \<open>dirname\<close> is the directory of
  the script (\<^verbatim>\<open>__dirname\<close>), \<open>filename\<close> the token of the request path, decoded:
  it may hold separators. On the branch that sends the file, the file exists and the
  bytes sent are its contents.
\<close>

definition download :: "string \<Rightarrow> string \<Rightarrow> server \<Rightarrow> response \<times> server" where
  "download dirname filename s =
     (let filePath = path_join [dirname, ''uploads'', filename]
      in if \<not> fs_existsSync filePath s
         then (Json 404 [(''error'', JStr ''File not found'')], s)
         else (Download filePath (the (disk s filePath)), s))"

text \<open>\<^verbatim>\<open>setTimeout\<close> with the only callback the server gives it: delete a file.\<close>

definition setTimeout :: "string \<Rightarrow> nat \<Rightarrow> server \<Rightarrow> server" where
  "setTimeout filePath delay s = s\<lparr>timers := timers s @ [(clock s + delay, filePath)]\<rparr>"

text \<open>The callback of \<^verbatim>\<open>res.download\<close>, called when the transfer has ended.\<close>

definition download_callback :: "string option \<Rightarrow> string \<Rightarrow> server \<Rightarrow> server" where
  "download_callback err filePath s =
     (case err of
        Some e \<Rightarrow> console_error [''Download error:'', e] s
      | None \<Rightarrow> setTimeout filePath 1000 s)"

text \<open>What the timer runs when it is due.\<close>

definition log_unlink :: "string option \<Rightarrow> server \<Rightarrow> server" where
  "log_unlink err s =
     (case err of None \<Rightarrow> s | Some e \<Rightarrow> console_error [''Error deleting file:'', e] s)"

definition timer_callback :: "string \<Rightarrow> server \<Rightarrow> server" where
  "timer_callback filePath s = fs_unlink filePath log_unlink s"

text \<open>
  Time passes: the clock moves to \<open>t\<close> and the timers due by then run, in the order
  they were set.
\<close>

fun run_due :: "nat \<Rightarrow> (nat \<times> string) list \<Rightarrow> server \<Rightarrow> server" where
  "run_due t [] s = s"
| "run_due t ((due, filePath) # ts) s =
     (if due \<le> t then run_due t ts (timer_callback filePath s) else run_due t ts s)"

definition advance_to :: "nat \<Rightarrow> server \<Rightarrow> server" where
  "advance_to t s =
     run_due t (timers s)
       (s\<lparr>timers := filter (\<lambda>(due, filePath). t < due) (timers s), clock := max t (clock s)\<rparr>)"

section \<open>GET /ffmpeg-info\<close>

definition ffmpeg_info :: "server \<Rightarrow> server" where
  "ffmpeg_info s = spawn ''ffmpeg'' [''-version''] s"

text \<open>
  \<^verbatim>\<open>lines.find(...) || 'Not found'\<close>: the first line with the word, and the default
  when there is none (or when what was found is the empty string).
\<close>

definition or_default :: "string option \<Rightarrow> string \<Rightarrow> string" where
  "or_default found dflt = (case found of None \<Rightarrow> dflt | Some l \<Rightarrow> if l = [] then dflt else l)"

text \<open>The \<^verbatim>\<open>close\<close> listener of the main server file; \<open>output\<close> is what was collected.\<close>

definition ffmpeg_info_on_close :: "int option \<Rightarrow> string \<Rightarrow> response" where
  "ffmpeg_info_on_close code output =
     (if code = Some 0 then
        (let lines = split_on nl output
         in Json 200
              ([(''success'', JBool True)]
               @ (case lines of [] \<Rightarrow> [] | l # ls \<Rightarrow> [(''version'', JStr l)])
               @ [(''configuration'',
                     JStr (or_default (find (\<lambda>line. str_includes line ''configuration:'') lines)
                             ''Not found'')),
                  (''libraries'',
                     JArr (map JStr (take 5 (filter (\<lambda>line. str_includes line ''lib'') lines))))]))
      else Json 500 [(''success'', JBool False), (''error'', JStr ''Could not get FFmpeg info'')])"

definition ffmpeg_info_on_error :: "string \<Rightarrow> response" where
  "ffmpeg_info_on_error message = Json 500 [(''success'', JBool False), (''error'', JStr message)]"

fun ffmpeg_info_event :: "child_event \<Rightarrow> string \<Rightarrow> server \<Rightarrow> response list \<times> string \<times> server" where
  "ffmpeg_info_event (Stdout dataStr) output s = ([], output @ dataStr, s)"
| "ffmpeg_info_event (Stderr dataStr) output s = ([], output @ dataStr, s)"
| "ffmpeg_info_event (Close code) output s = ([ffmpeg_info_on_close code output], output, s)"
| "ffmpeg_info_event (Error message) output s = ([ffmpeg_info_on_error message], output, s)"

text \<open>The \<^verbatim>\<open>close\<close> listener of \<^verbatim>\<open>packages/index.js\<close>.\<close>

definition pkg_ffmpeg_info_on_close :: "int option \<Rightarrow> string \<Rightarrow> response" where
  "pkg_ffmpeg_info_on_close code output =
     (if code = Some 0 then
        Json 200
          ([(''success'', JBool True)]
           @ (case split_on nl output of [] \<Rightarrow> [] | l # ls \<Rightarrow> [(''version'', JStr l)])
           @ [(''fullInfo'', JStr output)])
      else Json 500 [(''success'', JBool False), (''error'', JStr ''Could not get FFmpeg info'')])"

text \<open>
  \<^verbatim>\<open>packages/index.js\<close> registers no \<^verbatim>\<open>error\<close> listener on this child: the event
  is thrown as an uncaught exception and no response is sent.
\<close>

fun pkg_ffmpeg_info_event :: "child_event \<Rightarrow> string \<Rightarrow> server \<Rightarrow> response list \<times> string \<times> server" where
  "pkg_ffmpeg_info_event (Stdout dataStr) output s = ([], output @ dataStr, s)"
| "pkg_ffmpeg_info_event (Stderr dataStr) output s = ([], output @ dataStr, s)"
| "pkg_ffmpeg_info_event (Close code) output s = ([pkg_ffmpeg_info_on_close code output], output, s)"
| "pkg_ffmpeg_info_event (Error message) output s = ([], output, s\<lparr>uncaught := uncaught s @ [message]\<rparr>)"

section \<open>The probe: testFFmpeg and GET /health\<close>

text \<open>How the promise of \<^verbatim>\<open>testFFmpeg\<close> is settled.\<close>

datatype settled = Resolve bool | Reject bool

definition testFFmpeg :: "server \<Rightarrow> server" where
  "testFFmpeg s = spawn ''ffmpeg'' [''-version''] s"

text \<open>The marks the probe prints before its messages, as UTF-8.\<close>

definition check_mark :: string where
  "check_mark = [CHR 0xE2, CHR 0x9C, CHR 0x85]"

definition cross_mark :: string where
  "cross_mark = [CHR 0xE2, CHR 0x9D, CHR 0x8C]"

definition camera_mark :: string where
  "camera_mark = [CHR 0xF0, CHR 0x9F, CHR 0x93, CHR 0xB9]"

definition testFFmpeg_on_close :: "int option \<Rightarrow> string \<Rightarrow> server \<Rightarrow> settled \<times> server" where
  "testFFmpeg_on_close code output s =
     (if code = Some 0 then
        (Resolve True,
         console_log (camera_mark # (case split_on nl output of [] \<Rightarrow> [] | l # ls \<Rightarrow> [l]))
           (console_log [check_mark @ '' FFmpeg is working!''] s))
      else (Reject False, console_error [cross_mark @ '' FFmpeg test failed''] s))"

definition testFFmpeg_on_error :: "string \<Rightarrow> server \<Rightarrow> settled \<times> server" where
  "testFFmpeg_on_error message s =
     (Reject False, console_error [cross_mark @ '' FFmpeg not found:'', message] s)"

text \<open>
  The health handler: it starts the probe; \<open>health_respond\<close> is what it answers once
  the promise is settled. \<open>timestamp\<close> is \<^verbatim>\<open>new Date().toISOString()\<close> and \<open>uptime\<close>
  is \<^verbatim>\<open>process.uptime()\<close>.
\<close>

definition health :: "server \<Rightarrow> server" where
  "health s = testFFmpeg s"

definition health_respond :: "settled \<Rightarrow> string \<Rightarrow> real \<Rightarrow> response" where
  "health_respond outcome timestamp uptime =
     (case outcome of
        Resolve v \<Rightarrow>
          Json 200
            [(''status'', JStr ''healthy''),
             (''ffmpeg'', JStr ''available''),
             (''timestamp'', JStr timestamp),
             (''uptime'', JNum uptime)]
      | Reject v \<Rightarrow>
          Json 500
            [(''status'', JStr ''unhealthy''),
             (''ffmpeg'', JStr ''unavailable''),
             (''error'', JStr ''FFmpeg not working''),
             (''timestamp'', JStr timestamp)])"

text \<open>The answer of \<^verbatim>\<open>packages/index.js\<close> has no \<^verbatim>\<open>uptime\<close>.\<close>

definition pkg_health_respond :: "settled \<Rightarrow> string \<Rightarrow> response" where
  "pkg_health_respond outcome timestamp =
     (case outcome of
        Resolve v \<Rightarrow>
          Json 200
            [(''status'', JStr ''healthy''),
             (''ffmpeg'', JStr ''available''),
             (''timestamp'', JStr timestamp)]
      | Reject v \<Rightarrow>
          Json 500
            [(''status'', JStr ''unhealthy''),
             (''ffmpeg'', JStr ''unavailable''),
             (''error'', JStr ''FFmpeg not working''),
             (''timestamp'', JStr timestamp)])"

section \<open>Reading a response\<close>

definition status :: "response \<Rightarrow> nat" where
  "status r = (case r of Json n body \<Rightarrow> n | Download filePath bytes \<Rightarrow> 200)"

definition field :: "string \<Rightarrow> response \<Rightarrow> json option" where
  "field k r = (case r of Json n body \<Rightarrow> map_of body k | Download filePath bytes \<Rightarrow> None)"

section \<open>Directory names\<close>

text \<open>
  A path segment that names a file or a directory: not empty, not \<^verbatim>\<open>.\<close> or \<^verbatim>\<open>..\<close>,
  and without a separator. The directory of the script is a separator followed by
  such segments.
\<close>

definition plain_segment :: "string \<Rightarrow> bool" where
  "plain_segment seg = (seg \<noteq> [] \<and> seg \<noteq> ''.'' \<and> seg \<noteq> ''..'' \<and> CHR ''/'' \<notin> set seg)"

section \<open>Where the transcoder writes\<close>


section \<open>What the helpers leave alone\<close>

lemma disk_console_error [simp]: "disk (console_error args s) = disk s"
  and removed_console_error [simp]: "removed (console_error args s) = removed s"
  and timers_console_error [simp]: "timers (console_error args s) = timers s"
  and disk_console_log [simp]: "disk (console_log args s) = disk s"
  and removed_console_log [simp]: "removed (console_log args s) = removed s"
  and timers_console_log [simp]: "timers (console_log args s) = timers s"
  and disk_spawn [simp]: "disk (spawn command args s) = disk s"
  and removed_spawn [simp]: "removed (spawn command args s) = removed s"
  and timers_spawn [simp]: "timers (spawn command args s) = timers s"
  by (simp_all add: console_error_def console_log_def spawn_def)

lemma disk_log_input_unlink [simp]: "disk (log_input_unlink err s) = disk s"
  and removed_log_input_unlink [simp]: "removed (log_input_unlink err s) = removed s"
  by (simp_all add: log_input_unlink_def split: option.split)

lemma disk_log_unlink [simp]: "disk (log_unlink err s) = disk s"
  and removed_log_unlink [simp]: "removed (log_unlink err s) = removed s"
  and timers_log_unlink [simp]: "timers (log_unlink err s) = timers s"
  by (simp_all add: log_unlink_def split: option.split)

lemma fs_unlink_disk:
  assumes "\<And>err t. disk (callback err t) = disk t"
  shows "disk (fs_unlink p callback s) = (disk s)(p := None)"
  using assms by (auto simp: fs_unlink_def split: option.split)

lemma fs_unlink_removed:
  assumes "\<And>err t. removed (callback err t) = removed t"
  shows "removed (fs_unlink p callback s) = (if disk s p = None then removed s else removed s @ [p])"
  using assms by (auto simp: fs_unlink_def split: option.split)

lemma disk_timer_callback: "disk (timer_callback p s) = (disk s)(p := None)"
  by (simp add: timer_callback_def fs_unlink_disk)

section \<open>Lines and segments\<close>

lemma split_on_not_Nil: "split_on sep s \<noteq> []"
  by (induction s) (auto split: list.split)

lemma split_on_free: "l \<in> set (split_on sep s) \<Longrightarrow> sep \<notin> set l"
  by (induction s arbitrary: l) (auto split: list.splits if_splits)

lemma split_on_line: "sep \<notin> set l \<Longrightarrow> split_on sep l = [l]"
  by (induction l) auto

lemma split_on_first: "sep \<notin> set l \<Longrightarrow> split_on sep (l @ sep # rest) = l # split_on sep rest"
  by (induction l) auto

lemma split_on_first_line:
  "\<exists>ls. split_on sep s = takeWhile (\<lambda>c. c \<noteq> sep) s # ls"
  by (induction s) (auto split: list.split)

lemma split_on_replicate: "split_on sep (replicate n sep) = replicate (Suc n) []"
  by (induction n) auto

lemma join_on_Cons: "ls \<noteq> [] \<Longrightarrow> join_on sep (l # ls) = l @ sep # join_on sep ls"
  by (cases ls) auto

lemma join_on_append:
  "xs \<noteq> [] \<Longrightarrow> ys \<noteq> [] \<Longrightarrow> join_on sep (xs @ ys) = join_on sep xs @ sep # join_on sep ys"
proof (induction xs)
  case Nil
  then show ?case by simp
next
  case (Cons x xs)
  show ?case
  proof (cases "xs = []")
    case True
    with Cons.prems show ?thesis by (simp add: join_on_Cons)
  next
    case False
    with Cons show ?thesis by (simp add: join_on_Cons)
  qed
qed

lemma split_on_join_on:
  "ls \<noteq> [] \<Longrightarrow> \<forall>l \<in> set ls. sep \<notin> set l \<Longrightarrow> split_on sep (join_on sep ls) = ls"
proof (induction ls)
  case Nil
  then show ?case by simp
next
  case (Cons l ls)
  show ?case
  proof (cases "ls = []")
    case True
    with Cons.prems show ?thesis by (simp add: split_on_line)
  next
    case False
    with Cons show ?thesis by (simp add: join_on_Cons split_on_first)
  qed
qed

lemma slice_last_not_Nil: "xs \<noteq> [] \<Longrightarrow> 0 < n \<Longrightarrow> slice_last n xs \<noteq> []"
proof -
  assume "xs \<noteq> []" and "0 < n"
  then have "length xs - n < length xs" by (cases xs) auto
  then show ?thesis by (simp add: slice_last_def)
qed

lemma set_slice_last: "set (slice_last n xs) \<subseteq> set xs"
  by (simp add: slice_last_def set_drop_subset)

lemma length_slice_last: "length (slice_last n xs) = min n (length xs)"
  by (simp add: slice_last_def)

lemma split_on_tail:
  "split_on sep (join_on sep (slice_last 5 (split_on sep s))) = slice_last 5 (split_on sep s)"
proof (rule split_on_join_on)
  show "slice_last 5 (split_on sep s) \<noteq> []"
    by (rule slice_last_not_Nil) (simp_all add: split_on_not_Nil)
  show "\<forall>l \<in> set (slice_last 5 (split_on sep s)). sep \<notin> set l"
    using set_slice_last [of 5 "split_on sep s"] split_on_free [of _ sep s] by blast
qed

section \<open>Paths\<close>





lemma normalize_segments_plain:
  "list_all plain_segment segs \<Longrightarrow>
     normalize_segments allow (segs @ rest) res = normalize_segments allow rest (rev segs @ res)"
  by (induction segs arbitrary: res) (auto simp: plain_segment_def)

lemma path_join_parent:
  assumes dirs: "list_all plain_segment dirs" "dirs \<noteq> []"
    and x: "plain_segment x"
    and dirname: "dirname = CHR ''/'' # join_on (CHR ''/'') dirs"
  shows "path_join [dirname, ''uploads'', ''../'' @ x] = dirname @ ''/'' @ x"
proof -
  let ?segs = "[] # dirs @ [''uploads'', ''..'', x]"
  let ?p = "join_on (CHR ''/'') [dirname, ''uploads'', ''../'' @ x]"
  have p: "?p = join_on (CHR ''/'') ?segs"
    using dirs(2) by (simp add: dirname join_on_Cons join_on_append)
  have free: "\<forall>l \<in> set ?segs. CHR ''/'' \<notin> set l"
    using dirs(1) x by (auto simp: plain_segment_def list_all_iff)
  have split: "split_on (CHR ''/'') ?p = ?segs"
    unfolding p by (rule split_on_join_on) (use free in auto)
  have norm: "normalize_segments False ?segs [] = x # rev dirs"
    using x normalize_segments_plain [OF dirs(1), of False "[''uploads'', ''..'', x]" "[]"]
    by (simp add: plain_segment_def)
  have joined: "join_on (CHR ''/'') (dirs @ [x]) = join_on (CHR ''/'') dirs @ CHR ''/'' # x"
    using dirs(2) by (simp add: join_on_append)
  have lastp: "last ?p = last x"
    using x by (simp add: dirname plain_segment_def)
  have "last x \<in> set x" using x by (simp add: plain_segment_def)
  moreover have "CHR ''/'' \<notin> set x" using x by (simp add: plain_segment_def)
  ultimately have nolast: "last x \<noteq> CHR ''/''" by metis
  have start: "?p = CHR ''/'' # (join_on (CHR ''/'') dirs @ ''/uploads/../'' @ x)"
    by (simp add: dirname)
  have "path_normalize ?p = dirname @ ''/'' @ x"
    unfolding path_normalize_def split
    using norm joined nolast lastp
    by (simp add: start dirname)
  then show ?thesis
    by (simp add: path_join_def dirname)
qed


section \<open>Listeners and timers\<close>

lemma download_cases:
  "download dirname filename s =
     (case disk s (path_join [dirname, ''uploads'', filename]) of
        None \<Rightarrow> (Json 404 [(''error'', JStr ''File not found'')], s)
      | Some bytes \<Rightarrow> (Download (path_join [dirname, ''uploads'', filename]) bytes, s))"
  by (simp add: download_def fs_existsSync_def Let_def split: option.split)

lemma convert_started:
  "convert (Some f) s =
     (Inr \<lparr>inputPath = file_path f,
           outputPath = ''uploads/converted_'' @ decimal (clock s) @ ''.mp4'',
           progress = []\<rparr>,
      spawn ''ffmpeg''
        [''-i'', file_path f, ''-c:v'', ''libx264'', ''-c:a'', ''aac'', ''-preset'', ''fast'',
         ''-crf'', ''23'', ''-y'', ''uploads/converted_'' @ decimal (clock s) @ ''.mp4'']
        (console_log
           [''Converting: '' @ file_path f @ '' -> '' @ ''uploads/converted_'' @ decimal (clock s) @ ''.mp4'']
           s))"
  by (simp add: convert_def Let_def)

lemma convert_event_effect:
  assumes "convert_event e c s = (rs, c1, s1)"
  shows "inputPath c1 = inputPath c \<and>
    disk s1 = (if terminal e then (disk s)(inputPath c := None) else disk s) \<and>
    removed s1 = (if terminal e \<and> disk s (inputPath c) \<noteq> None then removed s @ [inputPath c] else removed s)"
  using assms
  by (cases e)
     (auto simp: convert_on_stderr_def convert_on_close_def convert_on_error_def Let_def
        fs_unlink_disk fs_unlink_removed split: if_splits)

lemma pkg_convert_event_effect:
  assumes "pkg_convert_event e c s = (rs, c1, s1)"
  shows "inputPath c1 = inputPath c \<and>
    disk s1 = (if terminal e then (disk s)(inputPath c := None) else disk s) \<and>
    removed s1 = (if terminal e \<and> disk s (inputPath c) \<noteq> None then removed s @ [inputPath c] else removed s)"
  using assms
  by (cases e)
     (auto simp: pkg_convert_on_stderr_def pkg_convert_on_close_def convert_on_error_def Let_def
        fs_unlink_disk fs_unlink_removed split: if_splits)

lemma run_events_effect:
  assumes step: "\<And>e c s rs c1 s1. listeners e c s = (rs, c1, s1) \<Longrightarrow>
        inputPath c1 = inputPath c \<and>
        disk s1 = (if terminal e then (disk s)(inputPath c := None) else disk s) \<and>
        removed s1 = (if terminal e \<and> disk s (inputPath c) \<noteq> None
                      then removed s @ [inputPath c] else removed s)"
    and run: "run_events listeners es c s = (rs, c1, s1)"
  shows "inputPath c1 = inputPath c \<and>
         disk s1 = (if list_ex terminal es then (disk s)(inputPath c := None) else disk s) \<and>
         removed s1 = (if list_ex terminal es \<and> disk s (inputPath c) \<noteq> None
                       then removed s @ [inputPath c] else removed s)"
  using run
proof (induction es arbitrary: c s rs c1 s1)
  case Nil
  then show ?case by simp
next
  case (Cons e es)
  obtain rs0 c0 s0 where first: "listeners e c s = (rs0, c0, s0)"
    by (cases "listeners e c s") auto
  obtain rs' where rest: "run_events listeners es c0 s0 = (rs', c1, s1)"
    using Cons.prems first by (auto split: prod.splits)
  from step [OF first] have e: "inputPath c0 = inputPath c"
    "disk s0 = (if terminal e then (disk s)(inputPath c := None) else disk s)"
    "removed s0 = (if terminal e \<and> disk s (inputPath c) \<noteq> None
                   then removed s @ [inputPath c] else removed s)"
    by blast+
  from Cons.IH [OF rest] have r: "inputPath c1 = inputPath c0"
    "disk s1 = (if list_ex terminal es then (disk s0)(inputPath c0 := None) else disk s0)"
    "removed s1 = (if list_ex terminal es \<and> disk s0 (inputPath c0) \<noteq> None
                   then removed s0 @ [inputPath c0] else removed s0)"
    by blast+
  show ?case
    unfolding r e by (cases "terminal e"; cases "list_ex terminal es"; simp)
qed



lemma run_due_keeps:
  "p \<notin> snd ` set ts \<Longrightarrow> disk (run_due t ts s) p = disk s p"
  by (induction ts arbitrary: s) (auto simp: disk_timer_callback)

lemma run_due_append: "run_due t (xs @ ys) s = run_due t ys (run_due t xs s)"
  by (induction xs arbitrary: s) auto

section \<open>The input file is deleted once, when the child has ended\<close>

text \<open>
  C1. A conversion request with an upload starts the transcoder; whatever the child
  then reports, in whatever order, the listeners of either server file remove the
  temporary input file exactly once, and not before an event that ends the child
  (\<^verbatim>\<open>close\<close> with any exit code, or \<^verbatim>\<open>error\<close>): the disk no longer has the file and
  the list of removals has grown by this one path. Until such an event the file stays.
  A child that could not be started reports \<^verbatim>\<open>error\<close> and then \<^verbatim>\<open>close\<close>; the second
  \<^verbatim>\<open>unlink\<close> then finds no file and removes nothing.
\<close>

theorem input_file_deleted_once:
  assumes present: "disk s0 (file_path f) = Some bytes"
    and variant: "listeners = convert_event \<or> listeners = pkg_convert_event"
  shows "\<exists>c s rs c1 s1.
           convert (Some f) s0 = (Inr c, s) \<and>
           run_events listeners es c s = (rs, c1, s1) \<and>
           (if list_ex terminal es
            then disk s1 (file_path f) = None \<and> removed s1 = removed s0 @ [file_path f]
            else disk s1 (file_path f) = Some bytes \<and> removed s1 = removed s0)"
proof -
  obtain c s where start: "convert (Some f) s0 = (Inr c, s)"
    and c: "inputPath c = file_path f" and s: "disk s = disk s0" "removed s = removed s0"
    by (simp add: convert_started)
  obtain rs c1 s1 where run: "run_events listeners es c s = (rs, c1, s1)"
    by (cases "run_events listeners es c s") auto
  have step: "\<And>e c s rs c1 s1. listeners e c s = (rs, c1, s1) \<Longrightarrow>
        inputPath c1 = inputPath c \<and>
        disk s1 = (if terminal e then (disk s)(inputPath c := None) else disk s) \<and>
        removed s1 = (if terminal e \<and> disk s (inputPath c) \<noteq> None
                      then removed s @ [inputPath c] else removed s)"
    using variant convert_event_effect pkg_convert_event_effect by blast
  from run_events_effect [OF step run] present c s
  have "if list_ex terminal es
        then disk s1 (file_path f) = None \<and> removed s1 = removed s0 @ [file_path f]
        else disk s1 (file_path f) = Some bytes \<and> removed s1 = removed s0"
    by simp
  with start run show ?thesis by blast
qed

theorem input_file_deleted_once_witness:
  "disk \<lparr>disk = [''uploads/3f9a'' \<mapsto> ''0123456789''], removed = [], spawned = [], console = [],
         timers = [], clock = 1700000000000, uncaught = []\<rparr>
     (file_path \<lparr>file_path = ''uploads/3f9a'', originalname = ''clip.mov'',
                 mimetype = ''video/quicktime'', file_size = 10\<rparr>) = Some ''0123456789'' \<and>
   (\<exists>c s rs c1 s1.
     convert (Some \<lparr>file_path = ''uploads/3f9a'', originalname = ''clip.mov'',
                    mimetype = ''video/quicktime'', file_size = 10\<rparr>)
       \<lparr>disk = [''uploads/3f9a'' \<mapsto> ''0123456789''], removed = [], spawned = [], console = [],
        timers = [], clock = 1700000000000, uncaught = []\<rparr> = (Inr c, s) \<and>
     run_events convert_event [Stderr ''Invalid data found'', Error ''spawn ffmpeg ENOENT'', Close (Some (- 2))] c s
       = (rs, c1, s1) \<and>
     disk s1 ''uploads/3f9a'' = None \<and> removed s1 = [''uploads/3f9a''])"
  using input_file_deleted_once
    [of "\<lparr>disk = [''uploads/3f9a'' \<mapsto> ''0123456789''], removed = [], spawned = [], console = [],
          timers = [], clock = 1700000000000, uncaught = []\<rparr>"
        "\<lparr>file_path = ''uploads/3f9a'', originalname = ''clip.mov'',
          mimetype = ''video/quicktime'', file_size = 10\<rparr>"
        "''0123456789''" convert_event
        "[Stderr ''Invalid data found'', Error ''spawn ffmpeg ENOENT'', Close (Some (- 2))]"]
  by simp

section \<open>The diagnostic text of a failed conversion\<close>

text \<open>
  C2. The claim is that the \<^verbatim>\<open>details\<close> field of every failed conversion holds at most
  the last five lines of the diagnostic stream. The \<^verbatim>\<open>close\<close> listener of
  \<^verbatim>\<open>packages/index.js\<close> sends the whole stream instead: a stream of \<open>n\<close> line breaks
  comes back unchanged, as \<open>n + 1\<close> lines.
\<close>

theorem pkg_details_unbounded:
  "field ''details'' (fst (pkg_convert_on_close (Some 1) (c\<lparr>progress := replicate n nl\<rparr>) s))
     = Some (JStr (replicate n nl)) \<and>
   length (split_on nl (replicate n nl)) = Suc n"
  by (simp add: pkg_convert_on_close_def Let_def field_def split_on_replicate)

theorem pkg_details_unbounded_witness:
  "field ''details''
     (fst (pkg_convert_on_close (Some 1)
        \<lparr>inputPath = ''uploads/3f9a'', outputPath = ''uploads/converted_1700000000000.mp4'',
         progress = replicate 6 nl\<rparr>
        \<lparr>disk = [''uploads/3f9a'' \<mapsto> ''0123456789''], removed = [], spawned = [], console = [],
         timers = [], clock = 1700000000000, uncaught = []\<rparr>))
     = Some (JStr (replicate 6 nl)) \<and>
   length (split_on nl (replicate 6 nl)) = 7"
  using pkg_details_unbounded
    [where n = 6 and c = "\<lparr>inputPath = ''uploads/3f9a'', outputPath = ''uploads/converted_1700000000000.mp4'',
         progress = []\<rparr>"
        and s = "\<lparr>disk = [''uploads/3f9a'' \<mapsto> ''0123456789''], removed = [], spawned = [], console = [],
         timers = [], clock = 1700000000000, uncaught = []\<rparr>"]
  by simp

text \<open>
  The main server file keeps the bound: after an exit code other than 0 its
  \<^verbatim>\<open>details\<close> field splits into exactly the last five lines of the stream (all of
  them when there are fewer), so into five lines at most.
\<close>

theorem details_last_five_lines:
  assumes "code \<noteq> Some 0"
  shows "\<exists>details.
           field ''details'' (fst (convert_on_close code c s)) = Some (JStr details) \<and>
           split_on nl details = slice_last 5 (split_on nl (progress c)) \<and>
           length (split_on nl details) \<le> 5"
proof -
  let ?details = "join_on nl (slice_last 5 (split_on nl (progress c)))"
  have "field ''details'' (fst (convert_on_close code c s)) = Some (JStr ?details)"
    using assms by (simp add: convert_on_close_def Let_def field_def)
  moreover have "split_on nl ?details = slice_last 5 (split_on nl (progress c))"
    by (rule split_on_tail)
  moreover have "length (split_on nl ?details) \<le> 5"
    by (simp add: split_on_tail length_slice_last)
  ultimately show ?thesis by blast
qed

theorem details_last_five_lines_witness:
  "Some 1 \<noteq> Some (0::int) \<and>
   (\<exists>details.
      field ''details''
        (fst (convert_on_close (Some 1)
           \<lparr>inputPath = ''uploads/3f9a'', outputPath = ''uploads/converted_1700000000000.mp4'',
            progress = ''a'' @ [nl] @ ''b'' @ [nl] @ ''c'' @ [nl] @ ''d'' @ [nl] @ ''e'' @ [nl]
                         @ ''f'' @ [nl] @ ''g''\<rparr>
           \<lparr>disk = [''uploads/3f9a'' \<mapsto> ''0123456789''], removed = [], spawned = [],
            console = [], timers = [], clock = 1700000000000, uncaught = []\<rparr>))
        = Some (JStr details) \<and>
      split_on nl details = [''c'', ''d'', ''e'', ''f'', ''g''])"
  using details_last_five_lines
    [of "Some 1"
        "\<lparr>inputPath = ''uploads/3f9a'', outputPath = ''uploads/converted_1700000000000.mp4'',
            progress = ''a'' @ [nl] @ ''b'' @ [nl] @ ''c'' @ [nl] @ ''d'' @ [nl] @ ''e'' @ [nl]
                         @ ''f'' @ [nl] @ ''g''\<rparr>"
        "\<lparr>disk = [''uploads/3f9a'' \<mapsto> ''0123456789''], removed = [], spawned = [],
            console = [], timers = [], clock = 1700000000000, uncaught = []\<rparr>"]
  by (auto simp: nl_def slice_last_def)

section \<open>An output file is named only after success\<close>

text \<open>
  C3. In either server file, the response to the event that ends the child has the
  fields \<^verbatim>\<open>outputFile\<close> and \<^verbatim>\<open>downloadUrl\<close> exactly when the event is \<^verbatim>\<open>close\<close> with
  exit code 0; then it is a 200 naming the base name of the output path. After any other
  exit code, after a signal, and after a failure to start the child, the response is a
  500 with \<^verbatim>\<open>success: false\<close> and neither field. The 400 sent for a request without a
  file has neither field as well.
\<close>

theorem output_referenced_iff_success:
  assumes "terminal e"
    and "listeners = convert_event \<or> listeners = pkg_convert_event"
  shows "(\<exists>r s1.
            listeners e c s = ([r], c, s1) \<and>
            (field ''downloadUrl'' r \<noteq> None \<longleftrightarrow> e = Close (Some 0)) \<and>
            (field ''outputFile'' r \<noteq> None \<longleftrightarrow> e = Close (Some 0)) \<and>
            (e = Close (Some 0) \<longrightarrow>
               status r = 200 \<and>
               field ''outputFile'' r = Some (JStr (basename (outputPath c))) \<and>
               field ''downloadUrl'' r = Some (JStr (''/download/'' @ basename (outputPath c)))) \<and>
            (e \<noteq> Close (Some 0) \<longrightarrow> status r = 500 \<and> field ''success'' r = Some (JBool False))) \<and>
         (\<exists>r. convert None s = (Inl r, s) \<and>
            field ''downloadUrl'' r = None \<and> field ''outputFile'' r = None)"
proof
  show "\<exists>r s1.
            listeners e c s = ([r], c, s1) \<and>
            (field ''downloadUrl'' r \<noteq> None \<longleftrightarrow> e = Close (Some 0)) \<and>
            (field ''outputFile'' r \<noteq> None \<longleftrightarrow> e = Close (Some 0)) \<and>
            (e = Close (Some 0) \<longrightarrow>
               status r = 200 \<and>
               field ''outputFile'' r = Some (JStr (basename (outputPath c))) \<and>
               field ''downloadUrl'' r = Some (JStr (''/download/'' @ basename (outputPath c)))) \<and>
            (e \<noteq> Close (Some 0) \<longrightarrow> status r = 500 \<and> field ''success'' r = Some (JBool False))"
  proof (cases e)
    case (Close code)
    with assms(2) show ?thesis
      by (auto simp: convert_on_close_def pkg_convert_on_close_def converted_def field_def
          status_def Let_def)
  next
    case (Error message)
    with assms(2) show ?thesis
      by (auto simp: convert_on_error_def field_def status_def Let_def)
  qed (use assms(1) in simp_all)
  show "\<exists>r. convert None s = (Inl r, s) \<and>
            field ''downloadUrl'' r = None \<and> field ''outputFile'' r = None"
    by (simp add: convert_def field_def)
qed

theorem output_referenced_iff_success_witness:
  "terminal (Close (Some 1)) \<and>
   (\<exists>r s1.
      pkg_convert_event (Close (Some 1))
        \<lparr>inputPath = ''uploads/3f9a'', outputPath = ''uploads/converted_1700000000000.mp4'',
         progress = ''Invalid data found''\<rparr>
        \<lparr>disk = [''uploads/3f9a'' \<mapsto> ''0123456789''], removed = [], spawned = [], console = [],
         timers = [], clock = 1700000000000, uncaught = []\<rparr>
      = ([r], \<lparr>inputPath = ''uploads/3f9a'', outputPath = ''uploads/converted_1700000000000.mp4'',
         progress = ''Invalid data found''\<rparr>, s1) \<and>
      field ''downloadUrl'' r = None \<and> field ''outputFile'' r = None \<and> status r = 500)"
  using output_referenced_iff_success
    [of "Close (Some 1)" pkg_convert_event
        "\<lparr>inputPath = ''uploads/3f9a'', outputPath = ''uploads/converted_1700000000000.mp4'',
         progress = ''Invalid data found''\<rparr>"
        "\<lparr>disk = [''uploads/3f9a'' \<mapsto> ''0123456789''], removed = [], spawned = [], console = [],
         timers = [], clock = 1700000000000, uncaught = []\<rparr>"]
  by auto

text \<open>
  Over a whole run of events: a response that names an output file is sent only when
  the child has closed with exit code 0.
\<close>

lemma event_names_output:
  assumes "listeners = convert_event \<or> listeners = pkg_convert_event"
    and "listeners e c s = (rs, c1, s1)"
    and "r \<in> set rs"
    and "field ''downloadUrl'' r \<noteq> None \<or> field ''outputFile'' r \<noteq> None"
  shows "e = Close (Some 0)"
  using assms
  by (cases e)
     (auto simp: convert_on_stderr_def pkg_convert_on_stderr_def convert_on_close_def
        pkg_convert_on_close_def convert_on_error_def field_def Let_def split: if_splits)

theorem output_only_after_success:
  assumes variant: "listeners = convert_event \<or> listeners = pkg_convert_event"
    and run: "run_events listeners es c s = (rs, c1, s1)"
    and sent: "r \<in> set rs"
    and names: "field ''downloadUrl'' r \<noteq> None \<or> field ''outputFile'' r \<noteq> None"
  shows "Close (Some 0) \<in> set es"
  using run sent
proof (induction es arbitrary: c s rs c1 s1)
  case Nil
  then show ?case by simp
next
  case (Cons e es)
  obtain rs0 c0 s0 where first: "listeners e c s = (rs0, c0, s0)"
    by (cases "listeners e c s") auto
  obtain rs' where rest: "run_events listeners es c0 s0 = (rs', c1, s1)" and rs: "rs = rs0 @ rs'"
    using Cons.prems(1) first by (auto split: prod.splits)
  from Cons.prems(2) rs consider "r \<in> set rs0" | "r \<in> set rs'" by auto
  then show ?case
  proof cases
    case 1
    from event_names_output [OF variant first 1 names] show ?thesis by simp
  next
    case 2
    from Cons.IH [OF rest 2] show ?thesis by simp
  qed
qed

theorem output_only_after_success_witness:
  "run_events convert_event [Stderr ''frame=1 time=00:00:01'', Close (Some 0)]
     \<lparr>inputPath = ''uploads/3f9a'', outputPath = ''uploads/converted_1700000000000.mp4'',
      progress = []\<rparr>
     \<lparr>disk = [''uploads/3f9a'' \<mapsto> ''0123456789''], removed = [], spawned = [], console = [],
      timers = [], clock = 1700000000000, uncaught = []\<rparr>
   = ([Json 200
         [(''success'', JBool True),
          (''message'', JStr ''Video converted successfully''),
          (''outputFile'', JStr ''converted_1700000000000.mp4''),
          (''downloadUrl'', JStr ''/download/converted_1700000000000.mp4'')]],
      \<lparr>inputPath = ''uploads/3f9a'', outputPath = ''uploads/converted_1700000000000.mp4'',
         progress = ''frame=1 time=00:00:01''\<rparr>,
      \<lparr>disk = Map.empty, removed = [''uploads/3f9a''], spawned = [],
       console = [Console_log [''FFmpeg progress:'', ''frame=1 time=00:00:01'']],
       timers = [], clock = 1700000000000, uncaught = []\<rparr>) \<and>
   Close (Some 0) \<in> set [Stderr ''frame=1 time=00:00:01'', Close (Some 0)]"
proof -
  let ?c = "\<lparr>inputPath = ''uploads/3f9a'', outputPath = ''uploads/converted_1700000000000.mp4'',
      progress = []\<rparr>"
  let ?s = "\<lparr>disk = [''uploads/3f9a'' \<mapsto> ''0123456789''], removed = [], spawned = [], console = [],
      timers = [], clock = 1700000000000, uncaught = []\<rparr>"
  let ?es = "[Stderr ''frame=1 time=00:00:01'', Close (Some 0)]"
  let ?r = "Json 200
         [(''success'', JBool True),
          (''message'', JStr ''Video converted successfully''),
          (''outputFile'', JStr ''converted_1700000000000.mp4''),
          (''downloadUrl'', JStr ''/download/converted_1700000000000.mp4'')]"
  have variant: "convert_event = convert_event \<or> convert_event = pkg_convert_event" by simp
  have run: "run_events convert_event ?es ?c ?s
     = ([?r], ?c\<lparr>progress := ''frame=1 time=00:00:01''\<rparr>,
        \<lparr>disk = Map.empty, removed = [''uploads/3f9a''], spawned = [],
         console = [Console_log [''FFmpeg progress:'', ''frame=1 time=00:00:01'']],
         timers = [], clock = 1700000000000, uncaught = []\<rparr>)"
    by (simp add: convert_on_stderr_def convert_on_close_def fs_unlink_def log_input_unlink_def
        console_log_def trim_def is_space_def converted_def basename_def Let_def)
  have sent: "?r \<in> set [?r]" by simp
  have names: "field ''downloadUrl'' ?r \<noteq> None \<or> field ''outputFile'' ?r \<noteq> None"
    by (simp add: field_def)
  from output_only_after_success [OF variant run sent names] run show ?thesis by simp
qed

section \<open>Download once, then not found\<close>




text \<open>
  A second request that arrives before the timer is due is served the file again.
\<close>

theorem refetch_before_deletion:
  assumes "disk s filePath = Some bytes"
    and "filePath \<notin> snd ` set (timers s)"
    and "t < clock s + 1000"
    and "filePath = path_join [dirname, ''uploads'', filename]"
  shows "download dirname filename (advance_to t (download_callback None filePath s))
           = (Download filePath bytes, advance_to t (download_callback None filePath s))"
proof -
  have "disk (advance_to t (download_callback None filePath s)) filePath = Some bytes"
    using assms(1-3)
    by (simp add: advance_to_def download_callback_def setTimeout_def run_due_append run_due_keeps)
  then show ?thesis
    by (simp add: download_cases assms(4) Let_def)
qed

theorem refetch_before_deletion_witness:
  "''/app/uploads/converted_1700000000000.mp4'' \<notin> snd ` set [] \<and>
   (1700000005500::nat) < 1700000005000 + 1000 \<and>
   fst (download ''/app'' ''converted_1700000000000.mp4''
     (advance_to 1700000005500
        (download_callback None ''/app/uploads/converted_1700000000000.mp4''
           \<lparr>disk = [''/app/uploads/converted_1700000000000.mp4'' \<mapsto> ''mp4 bytes''], removed = [],
            spawned = [], console = [], timers = [], clock = 1700000005000, uncaught = []\<rparr>)))
   = Download ''/app/uploads/converted_1700000000000.mp4'' ''mp4 bytes''"
proof -
  let ?s = "\<lparr>disk = [''/app/uploads/converted_1700000000000.mp4'' \<mapsto> ''mp4 bytes''], removed = [],
            spawned = [], console = [], timers = [], clock = 1700000005000, uncaught = []\<rparr>"
  have path: "''/app/uploads/converted_1700000000000.mp4''
      = path_join [''/app'', ''uploads'', ''converted_1700000000000.mp4'']"
    by (simp add: path_join_def path_normalize_def)
  have "disk ?s ''/app/uploads/converted_1700000000000.mp4'' = Some ''mp4 bytes''" by simp
  moreover have "''/app/uploads/converted_1700000000000.mp4'' \<notin> snd ` set (timers ?s)" by simp
  moreover have "1700000005500 < clock ?s + 1000" by simp
  ultimately have
    "download ''/app'' ''converted_1700000000000.mp4''
       (advance_to 1700000005500
          (download_callback None ''/app/uploads/converted_1700000000000.mp4'' ?s))
     = (Download ''/app/uploads/converted_1700000000000.mp4'' ''mp4 bytes'',
        advance_to 1700000005500
          (download_callback None ''/app/uploads/converted_1700000000000.mp4'' ?s))"
    using path by (rule refetch_before_deletion)
  then show ?thesis by simp
qed

section \<open>GET /ffmpeg-info when the tool cannot be started\<close>

text \<open>
  C5. The claim is that the information request answers 200 with \<^verbatim>\<open>version\<close>,
  \<^verbatim>\<open>configuration\<close> and \<^verbatim>\<open>libraries\<close> when the probe exits 0, and 500 with the error
  otherwise, also when the tool cannot be started. In \<^verbatim>\<open>packages/index.js\<close> the child
  of this handler has no \<^verbatim>\<open>error\<close> listener: a failure to start the tool sends no
  response and is left as an uncaught error, which ends a Node process that does not
  handle it; were the process to go on, the \<^verbatim>\<open>close\<close> that follows would answer
  \<^verbatim>\<open>Could not get FFmpeg info\<close>, not the message of the error. Its success response
  has \<^verbatim>\<open>fullInfo\<close> in place of \<^verbatim>\<open>configuration\<close> and \<^verbatim>\<open>libraries\<close>.
\<close>

theorem pkg_ffmpeg_info_spawn_failure:
  "pkg_ffmpeg_info_event (Error message) output s
     = ([], output, s\<lparr>uncaught := uncaught s @ [message]\<rparr>) \<and>
   fst (run_events pkg_ffmpeg_info_event [Error message] output s) = [] \<and>
   fst (run_events pkg_ffmpeg_info_event [Error message, Close (Some (- 2))] output s)
     = [Json 500 [(''success'', JBool False), (''error'', JStr ''Could not get FFmpeg info'')]] \<and>
   field ''configuration'' (pkg_ffmpeg_info_on_close (Some 0) output) = None \<and>
   field ''libraries'' (pkg_ffmpeg_info_on_close (Some 0) output) = None \<and>
   field ''fullInfo'' (pkg_ffmpeg_info_on_close (Some 0) output) = Some (JStr output)"
proof -
  obtain ls where "split_on nl output = takeWhile (\<lambda>c. c \<noteq> nl) output # ls"
    using split_on_first_line by blast
  then show ?thesis
    by (simp add: pkg_ffmpeg_info_on_close_def field_def)
qed

theorem pkg_ffmpeg_info_spawn_failure_witness:
  "fst (run_events pkg_ffmpeg_info_event [Error ''spawn ffmpeg ENOENT''] []
     \<lparr>disk = Map.empty, removed = [], spawned = [(''ffmpeg'', [''-version''])], console = [],
      timers = [], clock = 1700000000000, uncaught = []\<rparr>) = [] \<and>
   uncaught (snd (snd (pkg_ffmpeg_info_event (Error ''spawn ffmpeg ENOENT'') []
     \<lparr>disk = Map.empty, removed = [], spawned = [(''ffmpeg'', [''-version''])], console = [],
      timers = [], clock = 1700000000000, uncaught = []\<rparr>))) = [''spawn ffmpeg ENOENT'']"
  using pkg_ffmpeg_info_spawn_failure
    [of "''spawn ffmpeg ENOENT''" "[]"
      "\<lparr>disk = Map.empty, removed = [], spawned = [(''ffmpeg'', [''-version''])], console = [],
      timers = [], clock = 1700000000000, uncaught = []\<rparr>"]
  by simp

text \<open>
  The handler of the main server file: exit code 0 gives a 200 with the first line
  of the output as \<^verbatim>\<open>version\<close>, a \<^verbatim>\<open>configuration\<close> string and at most five
  \<^verbatim>\<open>libraries\<close>, each a line containing \<^verbatim>\<open>lib\<close>; any other end gives the 500 with
  \<^verbatim>\<open>Could not get FFmpeg info\<close>; a failure to start the tool gives the 500 with the
  message of the error.
\<close>

theorem ffmpeg_info_responses:
  "(code = Some 0 \<longrightarrow>
      (\<exists>configuration libraries.
         ffmpeg_info_on_close code output =
           Json 200
             [(''success'', JBool True),
              (''version'', JStr (takeWhile (\<lambda>c. c \<noteq> nl) output)),
              (''configuration'', JStr configuration),
              (''libraries'', JArr (map JStr libraries))] \<and>
         length libraries \<le> 5 \<and>
         list_all (\<lambda>line. str_includes line ''lib'') libraries)) \<and>
   (code \<noteq> Some 0 \<longrightarrow>
      ffmpeg_info_on_close code output =
        Json 500 [(''success'', JBool False), (''error'', JStr ''Could not get FFmpeg info'')]) \<and>
   ffmpeg_info_event (Close code) output s = ([ffmpeg_info_on_close code output], output, s) \<and>
   ffmpeg_info_event (Error message) output s =
     ([Json 500 [(''success'', JBool False), (''error'', JStr message)]], output, s)"
proof -
  obtain ls where "split_on nl output = takeWhile (\<lambda>c. c \<noteq> nl) output # ls"
    using split_on_first_line by blast
  then have version:
    "(case split_on nl output of [] \<Rightarrow> [] | l # ls \<Rightarrow> [(''version'', JStr l)])
       = [(''version'', JStr (takeWhile (\<lambda>c. c \<noteq> nl) output))]"
    by simp
  let ?found = "find (\<lambda>line. str_includes line ''configuration:'') (split_on nl output)"
  let ?libs = "take 5 (filter (\<lambda>line. str_includes line ''lib'') (split_on nl output))"
  have success: "ffmpeg_info_on_close (Some 0) output =
      Json 200
        [(''success'', JBool True),
         (''version'', JStr (takeWhile (\<lambda>c. c \<noteq> nl) output)),
         (''configuration'', JStr (or_default ?found ''Not found'')),
         (''libraries'', JArr (map JStr ?libs))]"
    unfolding ffmpeg_info_on_close_def Let_def version by simp
  have "length ?libs \<le> 5" by simp
  moreover have "list_all (\<lambda>line. str_includes line ''lib'') ?libs"
    unfolding list_all_iff
    using set_take_subset [of 5 "filter (\<lambda>line. str_includes line ''lib'') (split_on nl output)"]
    by auto
  ultimately have ok: "code = Some 0 \<longrightarrow>
      (\<exists>configuration libraries.
         ffmpeg_info_on_close code output =
           Json 200
             [(''success'', JBool True),
              (''version'', JStr (takeWhile (\<lambda>c. c \<noteq> nl) output)),
              (''configuration'', JStr configuration),
              (''libraries'', JArr (map JStr libraries))] \<and>
         length libraries \<le> 5 \<and>
         list_all (\<lambda>line. str_includes line ''lib'') libraries)"
    using success by blast
  have failure: "code \<noteq> Some 0 \<longrightarrow>
      ffmpeg_info_on_close code output =
        Json 500 [(''success'', JBool False), (''error'', JStr ''Could not get FFmpeg info'')]"
    by (simp add: ffmpeg_info_on_close_def)
  have events: "ffmpeg_info_event (Close code) output s = ([ffmpeg_info_on_close code output], output, s)"
    "ffmpeg_info_event (Error message) output s =
       ([Json 500 [(''success'', JBool False), (''error'', JStr message)]], output, s)"
    by (simp_all add: ffmpeg_info_on_error_def)
  from ok failure events show ?thesis by (simp only: simp_thms)
qed

theorem ffmpeg_info_responses_witness:
  "ffmpeg_info_on_close (Some 0)
     (''ffmpeg version 6.0'' @ [nl] @ ''configuration: --enable-libx264'' @ [nl] @ ''libavutil 58'')
   = Json 200
       [(''success'', JBool True),
        (''version'', JStr ''ffmpeg version 6.0''),
        (''configuration'', JStr ''configuration: --enable-libx264''),
        (''libraries'', JArr [JStr ''configuration: --enable-libx264'', JStr ''libavutil 58''])] \<and>
   ffmpeg_info_on_close (Some 1) []
   = Json 500 [(''success'', JBool False), (''error'', JStr ''Could not get FFmpeg info'')]"
  using ffmpeg_info_responses
    [of "Some 1" "[]"
        "\<lparr>disk = Map.empty, removed = [], spawned = [], console = [], timers = [],
          clock = 1700000000000, uncaught = []\<rparr>" "''spawn ffmpeg ENOENT''"]
  by (simp add: ffmpeg_info_on_close_def nl_def or_default_def)

section \<open>A request without a file\<close>

text \<open>
  C6. A conversion request without the upload is answered 400 with the error
  \<^verbatim>\<open>No file uploaded\<close>, and nothing else happens: the state of the server is the one
  before the request, so no child process was started and no file was touched.
\<close>

theorem missing_upload_rejected:
  "convert None s = (Inl (Json 400 [(''error'', JStr ''No file uploaded'')]), s) \<and>
   spawned (snd (convert None s)) = spawned s \<and>
   disk (snd (convert None s)) = disk s"
  by (simp add: convert_def)

theorem missing_upload_rejected_witness:
  "status (Json 400 [(''error'', JStr ''No file uploaded'')]) = 400 \<and>
   spawned (snd (convert None
     \<lparr>disk = Map.empty, removed = [], spawned = [], console = [],
      timers = [], clock = 1700000000000, uncaught = []\<rparr>)) = []"
  using missing_upload_rejected
    [of "\<lparr>disk = Map.empty, removed = [], spawned = [], console = [],
          timers = [], clock = 1700000000000, uncaught = []\<rparr>"]
  by (simp add: status_def)

section \<open>The arguments of the tool\<close>

text \<open>
  C7. A conversion request with an upload starts exactly one child,
  \<^verbatim>\<open>ffmpeg -i <input> -c:v libx264 -c:a aac -preset fast -crf 23 -y <output>\<close>, where
  the input is the path of the stored upload and the output is the path the listeners
  later report. The probe, the health request that runs it and the information
  request each start \<^verbatim>\<open>ffmpeg -version\<close>.
\<close>

theorem tool_arguments:
  "(\<exists>c s1. convert (Some f) s = (Inr c, s1) \<and>
      inputPath c = file_path f \<and>
      spawned s1 = spawned s @
        [(''ffmpeg'',
          [''-i'', inputPath c, ''-c:v'', ''libx264'', ''-c:a'', ''aac'', ''-preset'', ''fast'',
           ''-crf'', ''23'', ''-y'', outputPath c])]) \<and>
   spawned (testFFmpeg s) = spawned s @ [(''ffmpeg'', [''-version''])] \<and>
   spawned (health s) = spawned s @ [(''ffmpeg'', [''-version''])] \<and>
   spawned (ffmpeg_info s) = spawned s @ [(''ffmpeg'', [''-version''])]"
  by (simp add: convert_def Let_def spawn_def console_log_def testFFmpeg_def health_def ffmpeg_info_def)

theorem tool_arguments_witness:
  "spawned (snd (convert (Some \<lparr>file_path = ''uploads/3f9a'', originalname = ''clip.mov'',
                    mimetype = ''video/quicktime'', file_size = 10\<rparr>)
       \<lparr>disk = [''uploads/3f9a'' \<mapsto> ''0123456789''], removed = [], spawned = [], console = [],
        timers = [], clock = 1700000000000, uncaught = []\<rparr>))
   = [(''ffmpeg'',
          [''-i'', ''uploads/3f9a'', ''-c:v'', ''libx264'', ''-c:a'', ''aac'', ''-preset'', ''fast'',
           ''-crf'', ''23'', ''-y'', ''uploads/converted_1700000000000.mp4''])]"
  using tool_arguments
    [of "\<lparr>file_path = ''uploads/3f9a'', originalname = ''clip.mov'',
                    mimetype = ''video/quicktime'', file_size = 10\<rparr>"
       "\<lparr>disk = [''uploads/3f9a'' \<mapsto> ''0123456789''], removed = [], spawned = [], console = [],
        timers = [], clock = 1700000000000, uncaught = []\<rparr>"]
  by (simp add: convert_def Let_def decimal.simps digit_def)

text \<open>
  The health request answers 200 when the probe closed with exit code 0, and 500 after
  any other exit code and after a failure to start the tool.
\<close>

theorem health_follows_probe:
  "status (health_respond (fst (testFFmpeg_on_close code output s)) timestamp uptime)
     = (if code = Some 0 then 200 else 500) \<and>
   status (pkg_health_respond (fst (testFFmpeg_on_close code output s)) timestamp)
     = (if code = Some 0 then 200 else 500) \<and>
   status (health_respond (fst (testFFmpeg_on_error message s)) timestamp uptime) = 500 \<and>
   status (pkg_health_respond (fst (testFFmpeg_on_error message s)) timestamp) = 500 \<and>
   field ''ffmpeg'' (health_respond (fst (testFFmpeg_on_close code output s)) timestamp uptime)
     = Some (JStr (if code = Some 0 then ''available'' else ''unavailable''))"
  by (simp add: health_respond_def pkg_health_respond_def testFFmpeg_on_close_def
      testFFmpeg_on_error_def status_def field_def)

theorem health_follows_probe_witness:
  "status (health_respond (fst (testFFmpeg_on_close (Some 0) ''ffmpeg version 6.0''
     \<lparr>disk = Map.empty, removed = [], spawned = [(''ffmpeg'', [''-version''])], console = [],
      timers = [], clock = 1700000000000, uncaught = []\<rparr>)) ''2023-11-14T22:13:20.000Z'' 12.5) = 200 \<and>
   status (health_respond (fst (testFFmpeg_on_error ''spawn ffmpeg ENOENT''
     \<lparr>disk = Map.empty, removed = [], spawned = [(''ffmpeg'', [''-version''])], console = [],
      timers = [], clock = 1700000000000, uncaught = []\<rparr>)) ''2023-11-14T22:13:20.000Z'' 12.5) = 500"
  using health_follows_probe
    [of "Some 0" "''ffmpeg version 6.0''"
        "\<lparr>disk = Map.empty, removed = [], spawned = [(''ffmpeg'', [''-version''])], console = [],
          timers = [], clock = 1700000000000, uncaught = []\<rparr>"
        "''2023-11-14T22:13:20.000Z''" "12.5" "''spawn ffmpeg ENOENT''"]
  by simp

section \<open>The download path is not checked\<close>

text \<open>
  C8. For every token the download handler looks up the path it gets by joining the
  directory of the script, \<^verbatim>\<open>uploads\<close> and the token, and serves the file when it
  exists: nothing else is checked. So for a directory of the script made of plain
  segments and a token \<^verbatim>\<open>../x\<close>, the path is the file \<open>x\<close> beside the \<^verbatim>\<open>uploads\<close>
  directory, not under it, and it is served when it exists.
\<close>

theorem download_path_unchecked:
  assumes dirs: "list_all plain_segment dirs" "dirs \<noteq> []"
    and x: "plain_segment x"
    and dirname: "dirname = CHR ''/'' # join_on (CHR ''/'') dirs"
  shows "(\<forall>filename s.
            download dirname filename s =
              (case disk s (path_join [dirname, ''uploads'', filename]) of
                 None \<Rightarrow> (Json 404 [(''error'', JStr ''File not found'')], s)
               | Some bytes \<Rightarrow> (Download (path_join [dirname, ''uploads'', filename]) bytes, s))) \<and>
         path_join [dirname, ''uploads'', ''../'' @ x] = dirname @ ''/'' @ x \<and>
         \<not> prefix (dirname @ ''/uploads/'') (path_join [dirname, ''uploads'', ''../'' @ x]) \<and>
         (\<forall>s bytes. disk s (dirname @ ''/'' @ x) = Some bytes \<longrightarrow>
            download dirname (''../'' @ x) s = (Download (dirname @ ''/'' @ x) bytes, s))"
proof -
  have resolved: "path_join [dirname, ''uploads'', ''../'' @ x] = dirname @ ''/'' @ x"
    by (rule path_join_parent [OF dirs x dirname])
  have outside: "\<not> prefix (dirname @ ''/uploads/'') (dirname @ ''/'' @ x)"
  proof
    assume "prefix (dirname @ ''/uploads/'') (dirname @ ''/'' @ x)"
    then have "prefix ''uploads/'' x" by simp
    then have "set ''uploads/'' \<subseteq> set x" by (rule set_mono_prefix)
    then have "CHR ''/'' \<in> set x" by simp
    with x show False by (simp add: plain_segment_def)
  qed
  have every: "\<forall>filename s.
            download dirname filename s =
              (case disk s (path_join [dirname, ''uploads'', filename]) of
                 None \<Rightarrow> (Json 404 [(''error'', JStr ''File not found'')], s)
               | Some bytes \<Rightarrow> (Download (path_join [dirname, ''uploads'', filename]) bytes, s))"
    by (simp add: download_cases Let_def)
  have served: "\<forall>s bytes. disk s (dirname @ ''/'' @ x) = Some bytes \<longrightarrow>
            download dirname (''../'' @ x) s = (Download (dirname @ ''/'' @ x) bytes, s)"
    unfolding download_cases resolved by (simp add: Let_def)
  from every resolved outside served show ?thesis
    by (simp only: simp_thms)
qed

theorem download_path_unchecked_witness:
  "list_all plain_segment [''app''] \<and> plain_segment ''index.js'' \<and>
   ''/app'' = CHR ''/'' # join_on (CHR ''/'') [''app''] \<and>
   path_join [''/app'', ''uploads'', ''../index.js''] = ''/app/index.js'' \<and>
   \<not> prefix ''/app/uploads/'' (path_join [''/app'', ''uploads'', ''../index.js'']) \<and>
   download ''/app'' ''../index.js''
     \<lparr>disk = [''/app/index.js'' \<mapsto> ''const express''], removed = [], spawned = [], console = [],
      timers = [], clock = 1700000000000, uncaught = []\<rparr>
   = (Download ''/app/index.js'' ''const express'',
      \<lparr>disk = [''/app/index.js'' \<mapsto> ''const express''], removed = [], spawned = [], console = [],
       timers = [], clock = 1700000000000, uncaught = []\<rparr>)"
  using download_path_unchecked [of "[''app'']" "''index.js''" "''/app''"]
  by (simp add: plain_segment_def)

section \<open>A file that is not there\<close>

text \<open>
  C9. When the joined path names no file, the download request is answered 404 with
  the body \<^verbatim>\<open>{error: "File not found"}\<close>; the state is unchanged, so no timer is set
  and nothing is deleted.
\<close>

theorem missing_file_not_found:
  assumes "disk s (path_join [dirname, ''uploads'', filename]) = None"
  shows "download dirname filename s = (Json 404 [(''error'', JStr ''File not found'')], s) \<and>
         status (fst (download dirname filename s)) = 404 \<and>
         timers (snd (download dirname filename s)) = timers s \<and>
         disk (snd (download dirname filename s)) = disk s"
  using assms by (simp add: download_cases status_def)

theorem missing_file_not_found_witness:
  "disk \<lparr>disk = Map.empty, removed = [], spawned = [], console = [],
        timers = [], clock = 1700000000000, uncaught = []\<rparr>
     (path_join [''/app'', ''uploads'', ''nonexistent.mp4'']) = None \<and>
   download ''/app'' ''nonexistent.mp4''
     \<lparr>disk = Map.empty, removed = [], spawned = [], console = [],
        timers = [], clock = 1700000000000, uncaught = []\<rparr>
   = (Json 404 [(''error'', JStr ''File not found'')],
      \<lparr>disk = Map.empty, removed = [], spawned = [], console = [],
        timers = [], clock = 1700000000000, uncaught = []\<rparr>)"
  using missing_file_not_found
    [of "\<lparr>disk = Map.empty, removed = [], spawned = [], console = [],
        timers = [], clock = 1700000000000, uncaught = []\<rparr>" "''/app''" "''nonexistent.mp4''"]
  by simp

section \<open>A transfer that ends with an error\<close>

text \<open>
  C10. When the transfer ends with an error the callback only writes to the console:
  no timer is set, the disk and the list of removals are as before, and with no timer
  pending for the file it is still on the disk however much time passes. The timer,
  1000 ms ahead, is set on the branch without an error.
\<close>

theorem failed_transfer_keeps_file:
  assumes "disk s filePath = Some bytes"
    and "filePath \<notin> snd ` set (timers s)"
  shows "timers (download_callback (Some e) filePath s) = timers s \<and>
         disk (download_callback (Some e) filePath s) = disk s \<and>
         removed (download_callback (Some e) filePath s) = removed s \<and>
         disk (advance_to t (download_callback (Some e) filePath s)) filePath = Some bytes \<and>
         timers (download_callback None filePath s) = timers s @ [(clock s + 1000, filePath)]"
  using assms
  by (simp add: download_callback_def setTimeout_def advance_to_def run_due_keeps)

theorem failed_transfer_keeps_file_witness:
  "disk \<lparr>disk = [''/app/uploads/converted_1700000000000.mp4'' \<mapsto> ''mp4 bytes''], removed = [],
         spawned = [], console = [], timers = [], clock = 1700000005000, uncaught = []\<rparr>
     ''/app/uploads/converted_1700000000000.mp4'' = Some ''mp4 bytes'' \<and>
   ''/app/uploads/converted_1700000000000.mp4'' \<notin> snd ` set [] \<and>
   disk (advance_to 1700000009000 (download_callback (Some ''Request aborted'')
     ''/app/uploads/converted_1700000000000.mp4''
     \<lparr>disk = [''/app/uploads/converted_1700000000000.mp4'' \<mapsto> ''mp4 bytes''], removed = [],
         spawned = [], console = [], timers = [], clock = 1700000005000, uncaught = []\<rparr>))
     ''/app/uploads/converted_1700000000000.mp4'' = Some ''mp4 bytes''"
  using failed_transfer_keeps_file
    [of "\<lparr>disk = [''/app/uploads/converted_1700000000000.mp4'' \<mapsto> ''mp4 bytes''], removed = [],
         spawned = [], console = [], timers = [], clock = 1700000005000, uncaught = []\<rparr>"
        "''/app/uploads/converted_1700000000000.mp4''" "''mp4 bytes''" "''Request aborted''"
        1700000009000]
  by simp

end
